theory Spec2Isabelle
  imports Main
begin

section \<open>The Bluesky comment section of the blog\<close>

text \<open>
  The comment section fetches the reply thread of a Bluesky post, renders it as nested
  comment blocks and refreshes it on a timer and on demand. The repository holds it in two
  versions: the first file (\<^verbatim>\<open>src/unnamed/part_007\<close>) links every block to the post on
  the web application and stops at a depth limit, the second (\<^verbatim>\<open>src/unnamed/part_008\<close>)
  does neither. The class around the renderer is the same in both. This theory embeds the
  functions of both files and states what the specification says about them.
\<close>

subsection \<open>Payload: \<^verbatim>\<open>interface BlueskyPost\<close>\<close>

text \<open>
  A JSON number field that the payload may leave out is an \<open>int option\<close>: \<open>None\<close> is
  JavaScript's \<^verbatim>\<open>undefined\<close>. The optional \<^verbatim>\<open>replies\<close> array is a list option.
  The field \<^verbatim>\<open>post.record.text\<close> is \<open>record_text\<close>.
\<close>

record author =
  avatar :: string
  displayName :: string
  handle :: string

record post =
  uri :: string
  author :: author
  record_text :: string
  indexedAt :: string
  likeCount :: "int option"
  repostCount :: "int option"
  replyCount :: "int option"

datatype BlueskyPost = BlueskyPost (post: post) (replies: "BlueskyPost list option")

subsection \<open>\<^verbatim>\<open>getBlueskyPostUrl\<close>\<close>

text \<open>
  \<^verbatim>\<open>String.prototype.split(sep)\<close> for a one-character separator: the pieces between the
  separators, of which there is always at least one (\<^verbatim>\<open>''.split('/')\<close> is \<^verbatim>\<open>['']\<close>).
\<close>

fun js_split :: "char \<Rightarrow> string \<Rightarrow> string list" where
  "js_split sep [] = [[]]"
| "js_split sep (c # cs) =
     (if c = sep then [] # js_split sep cs
      else (case js_split sep cs of
              [] \<Rightarrow> [[c]]
            | s # ss \<Rightarrow> (c # s) # ss))"

text \<open>\<^verbatim>\<open>Array.prototype.pop()\<close> read for its value: the last element, \<^verbatim>\<open>undefined\<close> on \<^verbatim>\<open>[]\<close>.\<close>

definition pop :: "'a list \<Rightarrow> 'a option" where
  "pop xs = (if xs = [] then None else Some (last xs))"

text \<open>A template literal prints \<^verbatim>\<open>undefined\<close> as the word.\<close>

definition interpolate :: "string option \<Rightarrow> string" where
  "interpolate v = (case v of None \<Rightarrow> ''undefined'' | Some s \<Rightarrow> s)"

definition getBlueskyPostUrl :: "string \<Rightarrow> string \<Rightarrow> string" where
  "getBlueskyPostUrl u h =
     (let postId = pop (js_split (CHR ''/'') u)
      in ''https://bsky.app/profile/'' @ h @ ''/post/'' @ interpolate postId)"

text \<open>The trailing path segment of a string: its longest suffix without a slash.\<close>

definition trailing_segment :: "string \<Rightarrow> string" where
  "trailing_segment u = rev (takeWhile (\<lambda>c. c \<noteq> CHR ''/'') (rev u))"

subsection \<open>Rendered markup\<close>

text \<open>
  The renderers build HTML by template literals. The model keeps the element structure the
  templates produce and the values interpolated into them, not the characters: a value
  interpolated into a template stays that value, whatever characters it holds.
  \<^item> \<open>CommentDiv reply href s tail\<close> is \<^verbatim>\<open><div class="comment">\<close> (with class \<^verbatim>\<open>reply\<close>
    added when \<open>reply\<close> holds): header, content and footer showing \<open>s\<close>, followed by
    \<open>tail\<close>. When \<open>href\<close> is \<open>Some u\<close> the header and content are wrapped in
    \<^verbatim>\<open><a href="u" class="comment-link">\<close> and each counter in \<^verbatim>\<open><a href="u">\<close>.
  \<^item> \<open>RepliesDiv hs\<close> is \<^verbatim>\<open><div class="replies">\<close> around \<open>hs\<close>.
  \<^item> \<open>ContinueLink u l\<close> is \<^verbatim>\<open><a href="u" class="continue-thread">\<close> with label \<open>l\<close>.
  \<^item> \<open>Paragraph c t\<close> is \<^verbatim>\<open><p class="c">t</p>\<close>.
  \<^item> \<open>Text t\<close> is a text node, what assigning \<^verbatim>\<open>textContent\<close> leaves in an element.
  The empty string is the empty list and \<^verbatim>\<open>join('')\<close> is concatenation. The date shown in
  \<^verbatim>\<open><time>\<close> is \<^verbatim>\<open>new Date(indexedAt).toLocaleDateString()\<close>, which depends on the
  reader's locale; the model keeps \<open>indexedAt\<close>, which determines it.
\<close>

record shown =
  s_avatar :: string
  s_displayName :: string
  s_handle :: string
  s_text :: string
  s_replyCount :: int
  s_repostCount :: int
  s_likeCount :: int
  s_indexedAt :: string

datatype label =
    ContinueThisThread
  | ViewMore int string

datatype html =
    CommentDiv bool "string option" shown "html list"
  | RepliesDiv "html list"
  | ContinueLink string label
  | Paragraph string string
  | Text string

subsection \<open>\<^verbatim>\<open>renderComment\<close> and \<^verbatim>\<open>renderComments\<close>, first file\<close>

text \<open>\<^verbatim>\<open>n || 0\<close> on a number that may be missing: \<^verbatim>\<open>undefined\<close> and \<^verbatim>\<open>0\<close> are falsy.\<close>

definition or0 :: "int option \<Rightarrow> int" where
  "or0 n = (case n of None \<Rightarrow> 0 | Some k \<Rightarrow> if k = 0 then 0 else k)"


text \<open>The values the header, content and footer templates interpolate.\<close>

definition shown_of :: "post \<Rightarrow> shown" where
  "shown_of p =
     \<lparr> s_avatar = avatar (author p), s_displayName = displayName (author p),
       s_handle = handle (author p), s_text = record_text p,
       s_replyCount = or0 (replyCount p), s_repostCount = or0 (repostCount p),
       s_likeCount = or0 (likeCount p), s_indexedAt = indexedAt p \<rparr>"

text \<open>
  \<^verbatim>\<open>c.replies && c.replies.length > 0\<close> tests for a present, non-empty array; the branch
  it guards reads the array. \<open>replies_list\<close> reads a missing array as empty, which is
  also what the default parameter \<^verbatim>\<open>replies = []\<close> of the second file does.
\<close>

definition replies_list :: "BlueskyPost \<Rightarrow> BlueskyPost list" where
  "replies_list c = (case replies c of None \<Rightarrow> [] | Some rs \<Rightarrow> rs)"

text \<open>The ``View N more'' link of a post without fetched replies, or nothing.\<close>

definition viewMore :: "post \<Rightarrow> string \<Rightarrow> html list" where
  "viewMore p url =
     (case replyCount p of
        None \<Rightarrow> []
      | Some n \<Rightarrow>
          if 0 < n
          then [RepliesDiv [ContinueLink url (ViewMore n (if n = 1 then ''reply'' else ''replies''))]]
          else [])"

lemma size_member_less: "r \<in> set rs \<Longrightarrow> size r < size_list size rs"
  by (induction rs) auto

lemma size_replies_list: "size_list size (replies_list c) < size c"
  by (cases c) (simp add: replies_list_def split: option.splits)

text \<open>
  The closure \<^verbatim>\<open>renderReplies(replies, depth, parentUrl)\<close> of \<^verbatim>\<open>renderComment\<close>, with the
  \<^verbatim>\<open>maxDepth\<close> it captures as first argument, and the body of its \<^verbatim>\<open>map\<close> callback as
  \<open>renderReply\<close>.
\<close>

function renderReplies :: "nat \<Rightarrow> BlueskyPost list \<Rightarrow> nat \<Rightarrow> string \<Rightarrow> html list"
  and renderReply :: "nat \<Rightarrow> nat \<Rightarrow> BlueskyPost \<Rightarrow> html"
where
  "renderReplies maxDepth rs depth parentUrl =
     (if rs = [] then []
      else if maxDepth \<le> depth then [RepliesDiv [ContinueLink parentUrl ContinueThisThread]]
      else [RepliesDiv (map (renderReply maxDepth depth) rs)])"
| "renderReply maxDepth depth reply =
     (let replyUrl = getBlueskyPostUrl (uri (post reply)) (handle (author (post reply)))
      in CommentDiv True (Some replyUrl) (shown_of (post reply))
           (if replies_list reply \<noteq> []
            then renderReplies maxDepth (replies_list reply) (depth + 1) replyUrl
            else viewMore (post reply) replyUrl))"
  by pat_completeness auto
termination
  by (relation "measure (\<lambda>x. case x of
                   Inl (_, rs, _, _) \<Rightarrow> size_list size rs
                 | Inr (_, _, r) \<Rightarrow> size r)")
     (auto simp: size_member_less size_replies_list)

definition renderComment :: "nat \<Rightarrow> BlueskyPost \<Rightarrow> html" where
  "renderComment maxDepth comment =
     (let postUrl = getBlueskyPostUrl (uri (post comment)) (handle (author (post comment)))
      in CommentDiv False (Some postUrl) (shown_of (post comment))
           (if replies_list comment \<noteq> []
            then renderReplies maxDepth (replies_list comment) 1 postUrl
            else viewMore (post comment) postUrl))"

text \<open>
  \<^verbatim>\<open>renderComments\<close> computes the new \<^verbatim>\<open>innerHTML\<close> of the list region. It calls
  \<^verbatim>\<open>renderComment(comment)\<close> with one argument, so \<^verbatim>\<open>maxDepth\<close> is its default, 3.
\<close>

definition no_comments :: html where
  "no_comments = Paragraph ''no-comments'' ''No comments yet. Be the first to comment!''"

definition renderCommentsWith :: "nat \<Rightarrow> BlueskyPost list \<Rightarrow> html list" where
  "renderCommentsWith maxDepth comments =
     (if length comments = 0 then [no_comments]
      else map (renderComment maxDepth) comments)"

definition renderComments :: "BlueskyPost list \<Rightarrow> html list" where
  "renderComments comments = renderCommentsWith 3 comments"

subsection \<open>\<^verbatim>\<open>renderComment\<close> and \<^verbatim>\<open>renderComments\<close>, second file\<close>

text \<open>
  The second file has no depth limit, no links and no \<^verbatim>\<open>getBlueskyPostUrl\<close>; its
  \<^verbatim>\<open>BlueskyPost\<close> interface leaves \<^verbatim>\<open>uri\<close> out, and the renderer does not read it.
  Its functions carry the suffix 2.
\<close>

function renderReplies2 :: "BlueskyPost list \<Rightarrow> html list"
  and renderReply2 :: "BlueskyPost \<Rightarrow> html"
where
  "renderReplies2 rs =
     (if rs = [] then []
      else [RepliesDiv (map renderReply2 rs)])"
| "renderReply2 reply =
     CommentDiv True None (shown_of (post reply)) (renderReplies2 (replies_list reply))"
  by pat_completeness auto
termination
  by (relation "measure (\<lambda>x. case x of
                   Inl rs \<Rightarrow> size_list size rs
                 | Inr r \<Rightarrow> size r)")
     (auto simp: size_member_less size_replies_list)

definition renderComment2 :: "BlueskyPost \<Rightarrow> html" where
  "renderComment2 comment =
     CommentDiv False None (shown_of (post comment)) (renderReplies2 (replies_list comment))"

definition renderComments2 :: "BlueskyPost list \<Rightarrow> html list" where
  "renderComments2 comments =
     (if length comments = 0 then [no_comments]
      else map renderComment2 comments)"

subsection \<open>The view: \<^verbatim>\<open>class CommentSection\<close>\<close>

text \<open>
  An element of the page, as far as the class touches it: \<^verbatim>\<open>style.display\<close> and its
  content. Assigning \<^verbatim>\<open>innerHTML\<close> replaces the content by the markup; assigning
  \<^verbatim>\<open>textContent\<close> replaces it by one text node.
\<close>

record element =
  display :: string
  children :: "html list"

text \<open>What the page shows of an element: nothing while its \<^verbatim>\<open>display\<close> is \<^verbatim>\<open>none\<close>.\<close>

definition visible :: "element \<Rightarrow> html list" where
  "visible e = (if display e = ''none'' then [] else children e)"

text \<open>
  A container: its \<^verbatim>\<open>data-bluesky-uri\<close> attribute and what \<^verbatim>\<open>querySelector\<close> finds in it
  for the four classes (\<open>None\<close> is \<^verbatim>\<open>null\<close>).
\<close>

record container =
  dataset_blueskyUri :: "string option"
  comments_loader :: "element option"
  comments_error :: "element option"
  comments_list :: "element option"
  refresh_comments :: "element option"

record view =
  this_uri :: string
  loader :: element
  errorDiv :: element
  commentsList :: element
  refreshButton :: element

text \<open>A thrown value: an \<^verbatim>\<open>Error\<close> with its message, or something that is not an \<^verbatim>\<open>Error\<close>.\<close>

datatype thrown = Error string | NotAnError

text \<open>
  The constructor. \<^verbatim>\<open>!uri\<close> holds for a missing attribute and for the empty string. The
  call \<^verbatim>\<open>this.initialize()\<close> that ends it starts the view (see \<open>initialize\<close> below) and
  cannot throw into the constructor, being \<^verbatim>\<open>async\<close>.
\<close>

definition new_CommentSection :: "container \<Rightarrow> thrown + view" where
  "new_CommentSection c =
     (case dataset_blueskyUri c of
        None \<Rightarrow> Inl (Error ''Bluesky URI is required'')
      | Some u \<Rightarrow>
          if u = [] then Inl (Error ''Bluesky URI is required'')
          else (case (comments_loader c, comments_error c, comments_list c, refresh_comments c) of
                  (Some l, Some e, Some cl, Some rb) \<Rightarrow>
                    Inr \<lparr> this_uri = u, loader = l, errorDiv = e, commentsList = cl,
                          refreshButton = rb \<rparr>
                | _ \<Rightarrow> Inl (Error ''Required DOM elements not found'')))"

text \<open>
  \<^verbatim>\<open>initializeCommentSections\<close>: \<^verbatim>\<open>forEach\<close> over the containers of the page in document
  order, constructing a view for each. Nothing catches what a constructor throws, so the
  exception leaves \<^verbatim>\<open>forEach\<close> and ends the iteration. The result is the views constructed
  and the exception that escaped, if any.
\<close>

fun forEach_new :: "container list \<Rightarrow> view list \<Rightarrow> view list \<times> thrown option" where
  "forEach_new [] vs = (vs, None)"
| "forEach_new (c # cs) vs =
     (case new_CommentSection c of
        Inl t \<Rightarrow> (vs, Some t)
      | Inr v \<Rightarrow> forEach_new cs (vs @ [v]))"

definition initializeCommentSections :: "container list \<Rightarrow> view list \<times> thrown option" where
  "initializeCommentSections containers = forEach_new containers []"

subsection \<open>\<^verbatim>\<open>fetchComments\<close>\<close>

text \<open>
  What the network does in one cycle is the cycle's input: \<^verbatim>\<open>fetch\<close> rejects, or resolves
  with a status and a body; reading the body as JSON rejects with a \<^verbatim>\<open>SyntaxError\<close>, or
  yields \<^verbatim>\<open>null\<close> (where \<^verbatim>\<open>data.thread\<close> raises a \<^verbatim>\<open>TypeError\<close> with the engine's
  message), or yields an object whose \<^verbatim>\<open>thread\<close> may be missing and whose
  \<^verbatim>\<open>thread.replies\<close> may be missing.
\<close>

datatype thread = Thread "BlueskyPost list option"

datatype body = Unparsable string | NullBody string | Parsed "thread option"

datatype outcome = Rejected thrown | Response nat body

text \<open>A number in a template literal: its decimal digits.\<close>

fun show_nat :: "nat \<Rightarrow> string" where
  "show_nat n =
     (if n < 10 then [''0123456789'' ! n]
      else show_nat (n div 10) @ [''0123456789'' ! (n mod 10)])"

declare show_nat.simps [simp del]

text \<open>\<^verbatim>\<open>response.ok\<close>: a status from 200 to 299.\<close>

definition ok :: "nat \<Rightarrow> bool" where
  "ok status = (200 \<le> status \<and> status \<le> 299)"

text \<open>The \<^verbatim>\<open>try\<close> block up to \<^verbatim>\<open>const comments = data.thread?.replies || []\<close>.\<close>

definition attempt :: "outcome \<Rightarrow> thrown + BlueskyPost list" where
  "attempt out =
     (case out of
        Rejected t \<Rightarrow> Inl t
      | Response status b \<Rightarrow>
          if \<not> ok status then Inl (Error (''HTTP error! status: '' @ show_nat status))
          else (case b of
                  Unparsable m \<Rightarrow> Inl (Error m)
                | NullBody m \<Rightarrow> Inl (Error m)
                | Parsed None \<Rightarrow> Inr []
                | Parsed (Some (Thread None)) \<Rightarrow> Inr []
                | Parsed (Some (Thread (Some rs))) \<Rightarrow> Inr rs))"

text \<open>\<^verbatim>\<open>error instanceof Error ? error.message : 'An unknown error occurred'\<close>\<close>

definition errorMessage :: "thrown \<Rightarrow> string" where
  "errorMessage t = (case t of Error m \<Rightarrow> m | NotAnError \<Rightarrow> ''An unknown error occurred'')"

text \<open>
  One cycle, from the state of the view before it to the state after it. The three
  assignments before \<^verbatim>\<open>try\<close> are \<open>begin_cycle\<close>, the loading state. The function that
  renders is a parameter: the two files differ in nothing else here.
\<close>

definition begin_cycle :: "view \<Rightarrow> view" where
  "begin_cycle v =
     v \<lparr> loader := (loader v) \<lparr> display := ''block'' \<rparr>,
         errorDiv := (errorDiv v) \<lparr> display := ''none'' \<rparr>,
         commentsList := (commentsList v) \<lparr> display := ''none'' \<rparr> \<rparr>"

definition fetchCommentsWith :: "(BlueskyPost list \<Rightarrow> html list) \<Rightarrow> outcome \<Rightarrow> view \<Rightarrow> view" where
  "fetchCommentsWith render out v =
     (let v1 = begin_cycle v
      in case attempt out of
           Inr comments \<Rightarrow>
             v1 \<lparr> commentsList := \<lparr> display = ''block'', children = render comments \<rparr>,
                  loader := (loader v1) \<lparr> display := ''none'' \<rparr> \<rparr>
         | Inl error \<Rightarrow>
             v1 \<lparr> loader := (loader v1) \<lparr> display := ''none'' \<rparr>,
                  errorDiv := \<lparr> display = ''block'',
                               children = [Text (''Error loading comments: '' @ errorMessage error)] \<rparr> \<rparr>)"

definition fetchComments :: "outcome \<Rightarrow> view \<Rightarrow> view" where
  "fetchComments = fetchCommentsWith renderComments"

definition fetchComments2 :: "outcome \<Rightarrow> view \<Rightarrow> view" where
  "fetchComments2 = fetchCommentsWith renderComments2"

subsection \<open>\<^verbatim>\<open>initialize\<close> and the timer\<close>

text \<open>
  Time is in milliseconds since the view was constructed. The runtime state holds what
  \<^verbatim>\<open>initialize\<close> changes: the click listeners on the refresh button, the interval timers
  registered (when, and with what period), and the times at which a cycle was started.
  \<^verbatim>\<open>await this.fetchComments()\<close> resumes when the first cycle is over, \<open>l\<close> milliseconds
  after it began; \<open>None\<close> is a request that never settles (\<^verbatim>\<open>fetch\<close> is called without a
  timeout), after which nothing behind the \<^verbatim>\<open>await\<close> runs.
\<close>

record runtime =
  now :: nat
  click_listeners :: nat
  intervals :: "(nat \<times> nat) list"
  started :: "nat list"

definition interval_ms :: nat where
  "interval_ms = 5 * 60 * 1000"

definition initialize :: "nat option \<Rightarrow> runtime \<Rightarrow> runtime" where
  "initialize first r =
     (let r1 = r \<lparr> click_listeners := click_listeners r + 1 \<rparr>;
          r2 = r1 \<lparr> started := started r1 @ [now r1] \<rparr>
      in case first of
           None \<Rightarrow> r2
         | Some l \<Rightarrow>
             (let r3 = r2 \<lparr> now := now r2 + l \<rparr>
              in r3 \<lparr> intervals := intervals r3 @ [(now r3, interval_ms)] \<rparr>))"

text \<open>
  \<^verbatim>\<open>setInterval(f, p)\<close> registered at \<open>t0\<close> calls \<^verbatim>\<open>f\<close> at \<open>t0 + p\<close>, \<open>t0 + 2p\<close>, and so on;
  \<open>fires t p T\<close> lists the calls from \<open>t\<close> up to and including time \<open>T\<close>.
\<close>

function fires :: "nat \<Rightarrow> nat \<Rightarrow> nat \<Rightarrow> nat list" where
  "fires t p T = (if p = 0 \<or> T < t then [] else t # fires (t + p) p T)"
  by pat_completeness auto
termination
  by (relation "measure (\<lambda>(t, p, T). Suc T - t)") auto

declare fires.simps [simp del]

text \<open>
  The times, up to and including \<open>T\<close>, at which a view constructed at time 0 starts a
  cycle when nobody clicks the refresh button.
\<close>

definition cycle_starts :: "nat option \<Rightarrow> nat \<Rightarrow> nat list" where
  "cycle_starts first T =
     (let r = initialize first \<lparr> now = 0, click_listeners = 0, intervals = [], started = [] \<rparr>
      in filter (\<lambda>t. t \<le> T) (started r)
         @ concat (map (\<lambda>(t0, p). fires (t0 + p) p T) (intervals r)))"

subsection \<open>Reading trees and markup\<close>


















subsection \<open>A thread to compute on\<close>





text \<open>
  A container as the page template writes it (loader shown, error and list hidden and
  empty) and the view constructed from it.
\<close>

definition page_element :: "string \<Rightarrow> element" where
  "page_element d = \<lparr> display = d, children = [] \<rparr>"

definition example_container :: container where
  "example_container =
     \<lparr> dataset_blueskyUri = Some ''at://did:plc:abc123/app.bsky.feed.post/xyz789'',
       comments_loader = Some (page_element []),
       comments_error = Some (page_element ''none''),
       comments_list = Some (page_element ''none''),
       refresh_comments = Some (page_element []) \<rparr>"

definition example_view :: view where
  "example_view =
     \<lparr> this_uri = ''at://did:plc:abc123/app.bsky.feed.post/xyz789'',
       loader = page_element [],
       errorDiv = page_element ''none'',
       commentsList = page_element ''none'',
       refreshButton = page_element [] \<rparr>"

subsection \<open>The identifier translator\<close>

lemma js_split_not_Nil: "js_split sep s \<noteq> []"
  by (induction s) (auto split: list.splits)

lemma js_split_no_sep: "sep \<notin> set s \<Longrightarrow> js_split sep s = [s]"
  by (induction s) auto

lemma js_split_sep_two: "sep \<in> set s \<Longrightarrow> \<exists>a b bs. js_split sep s = a # b # bs"
proof (induction s)
  case Nil
  then show ?case by simp
next
  case (Cons c cs)
  show ?case
  proof (cases "c = sep")
    case True
    then show ?thesis
      using js_split_not_Nil [of sep cs] by (cases "js_split sep cs") auto
  next
    case False
    with Cons.prems have "sep \<in> set cs" by simp
    from Cons.IH [OF this] obtain a b bs where "js_split sep cs = a # b # bs" by blast
    with False show ?thesis by simp
  qed
qed

lemma last_js_split: "last (js_split sep s) = rev (takeWhile (\<lambda>c. c \<noteq> sep) (rev s))"
proof (induction s)
  case Nil
  show ?case by simp
next
  case (Cons c cs)
  show ?case
  proof (cases "sep \<in> set cs")
    case False
    then have "js_split sep cs = [cs]" by (rule js_split_no_sep)
    with False show ?thesis
      by (auto simp: takeWhile_append)
  next
    case True
    from js_split_sep_two [OF this] obtain a b bs where "js_split sep cs = a # b # bs" by blast
    with True Cons.IH show ?thesis
      by (auto simp: takeWhile_append)
  qed
qed

lemma pop_js_split: "pop (js_split sep s) = Some (rev (takeWhile (\<lambda>c. c \<noteq> sep) (rev s)))"
  by (simp add: pop_def js_split_not_Nil last_js_split)

text \<open>
  Claim C5. The translator returns \<^verbatim>\<open>https://bsky.app/profile/<handle>/post/<key>\<close> where
  the key is the trailing path segment of the uri. It does so for every pair of strings:
  \<^verbatim>\<open>pop()\<close> never yields \<^verbatim>\<open>undefined\<close> here, nothing raises, and the result is a function
  of the two arguments alone. On the post \<^verbatim>\<open>at://did:plc:abc123/app.bsky.feed.post/xyz789\<close>
  of \<^verbatim>\<open>alice.bsky.social\<close> it is
  \<^verbatim>\<open>https://bsky.app/profile/alice.bsky.social/post/xyz789\<close>.
\<close>

theorem getBlueskyPostUrl_trailing_segment:
  "getBlueskyPostUrl u h = ''https://bsky.app/profile/'' @ h @ ''/post/'' @ trailing_segment u
   \<and> pop (js_split (CHR ''/'') u) \<noteq> None
   \<and> getBlueskyPostUrl ''at://did:plc:abc123/app.bsky.feed.post/xyz789'' ''alice.bsky.social''
       = ''https://bsky.app/profile/alice.bsky.social/post/xyz789''"
  by (simp add: getBlueskyPostUrl_def interpolate_def trailing_segment_def pop_def
      js_split_not_Nil last_js_split)

subsection \<open>The renderer\<close>

text \<open>
  The recursion equations of the renderers are applied by name, not by default; the lists
  below are what a computation on a concrete thread unfolds.
\<close>

declare renderReplies.simps [simp del] renderReply.simps [simp del]
declare renderReplies2.simps [simp del] renderReply2.simps [simp del]



























subsection \<open>The counters\<close>





subsection \<open>The two files\<close>








subsection \<open>The fetch cycle\<close>

lemmas cycle_eval = fetchComments_def fetchComments2_def fetchCommentsWith_def begin_cycle_def
  visible_def Let_def

text \<open>
  Claim C6. When the response is a success whose body has no \<^verbatim>\<open>thread\<close>, no
  \<^verbatim>\<open>thread.replies\<close> or an empty \<^verbatim>\<open>thread.replies\<close>, the cycle leaves the list region
  shown with exactly one child, the paragraph ``No comments yet. Be the first to comment!''
  of class \<^verbatim>\<open>no-comments\<close>, the error region hidden and the loader hidden, in both files.
\<close>

theorem empty_thread_placeholder:
  assumes "ok status"
    and "t = None \<or> t = Some (Thread None) \<or> t = Some (Thread (Some []))"
  shows "commentsList (fetchComments (Response status (Parsed t)) v) =
           \<lparr> display = ''block'',
             children = [Paragraph ''no-comments'' ''No comments yet. Be the first to comment!''] \<rparr>
    \<and> commentsList (fetchComments2 (Response status (Parsed t)) v) =
           \<lparr> display = ''block'',
             children = [Paragraph ''no-comments'' ''No comments yet. Be the first to comment!''] \<rparr>
    \<and> display (errorDiv (fetchComments (Response status (Parsed t)) v)) = ''none''
    \<and> display (errorDiv (fetchComments2 (Response status (Parsed t)) v)) = ''none''
    \<and> display (loader (fetchComments (Response status (Parsed t)) v)) = ''none''
    \<and> display (loader (fetchComments2 (Response status (Parsed t)) v)) = ''none''"
  using assms
  by (auto simp: cycle_eval attempt_def renderComments_def renderCommentsWith_def
        renderComments2_def no_comments_def)

theorem empty_thread_placeholder_witness:
  "ok 200
   \<and> visible (commentsList (fetchComments (Response 200 (Parsed (Some (Thread (Some []))))) example_view)) =
       [Paragraph ''no-comments'' ''No comments yet. Be the first to comment!'']
   \<and> visible (commentsList (fetchComments2 (Response 200 (Parsed None)) example_view)) =
       [Paragraph ''no-comments'' ''No comments yet. Be the first to comment!'']
   \<and> visible (errorDiv (fetchComments (Response 200 (Parsed (Some (Thread (Some []))))) example_view)) = []"
  using empty_thread_placeholder [of 200 "Some (Thread (Some []))" example_view]
    empty_thread_placeholder [of 200 None example_view]
  by (simp add: ok_def visible_def)




subsection \<open>Initialization of the views of a page\<close>

text \<open>
  Claim C2 says that a container with a missing element fails alone and that every other
  container of the page is still initialized. On a page whose first container lacks its
  refresh button and whose second container is complete, the constructor throws for the
  first, the exception ends \<^verbatim>\<open>forEach\<close>, and no view is constructed for the second,
  although the constructor accepts it. Only containers before the failing one get a view.
\<close>

theorem initialization_stops_at_first_failure:
  "initializeCommentSections
     [example_container \<lparr> refresh_comments := None \<rparr>, example_container] =
     ([], Some (Error ''Required DOM elements not found''))
   \<and> new_CommentSection example_container = Inr example_view
   \<and> initializeCommentSections
       [example_container, example_container \<lparr> refresh_comments := None \<rparr>] =
       ([example_view], Some (Error ''Required DOM elements not found''))"
  by (simp add: initializeCommentSections_def new_CommentSection_def example_container_def
        example_view_def)

subsection \<open>The refresh timer\<close>

text \<open>The calls of an interval timer in closed form.\<close>

lemma upt_step: "t # map (\<lambda>k. t + p + p * k) [0 ..< n] = map (\<lambda>k. t + p * k) [0 ..< Suc n]"
  by (simp add: map_upt_Suc del: upt_Suc)

lemma fires_closed:
  "0 < p \<Longrightarrow> fires t p T = map (\<lambda>k. t + p * k) [0 ..< (T + p - t) div p]"
proof (induction t p T rule: fires.induct)
  case (1 t p T)
  show ?case
  proof (cases "T < t")
    case True
    then have "T + p - t < p" using "1.prems" by arith
    then have "(T + p - t) div p = 0" by (rule div_less)
    moreover have "fires t p T = []"
      using True by (subst fires.simps) simp
    ultimately show ?thesis by simp
  next
    case False
    then have e: "T + p - t = (T - t) + p" by arith
    have "((T - t) + p) div p = Suc ((T - t) div p)"
      using "1.prems" div_add_self2 [of p "T - t"] by simp
    then have "(T + p - t) div p = Suc ((T - t) div p)"
      by (simp only: e)
    moreover have "T + p - (t + p) = T - t" by arith
    ultimately have n: "(T + p - t) div p = Suc ((T + p - (t + p)) div p)"
      by (simp only:)
    have ih: "fires (t + p) p T = map (\<lambda>k. t + p + p * k) [0 ..< (T + p - (t + p)) div p]"
      by (rule "1.IH") (use False "1.prems" in auto)
    have "fires t p T = t # fires (t + p) p T"
      using False "1.prems" by (subst fires.simps) simp
    also have "\<dots> = t # map (\<lambda>k. t + p + p * k) [0 ..< (T + p - (t + p)) div p]"
      by (simp only: ih)
    also have "\<dots> = map (\<lambda>k. t + p * k) [0 ..< Suc ((T + p - (t + p)) div p)]"
      by (rule upt_step)
    finally show ?thesis by (simp only: n)
  qed
qed

lemma cycle_starts_Some:
  "cycle_starts (Some l) T =
     0 # map (\<lambda>k. l + interval_ms * (k + 1)) [0 ..< (T - l) div interval_ms]"
proof -
  have p: "0 < interval_ms" by (simp add: interval_ms_def)
  have d: "T + interval_ms - (l + interval_ms) = T - l" by arith
  have "fires (l + interval_ms) interval_ms T =
      map (\<lambda>k. l + interval_ms + interval_ms * k) [0 ..< (T - l) div interval_ms]"
    using fires_closed [OF p, of "l + interval_ms" T] by (simp only: d)
  also have "\<dots> = map (\<lambda>k. l + interval_ms * (k + 1)) [0 ..< (T - l) div interval_ms]"
    by (rule map_cong) (simp_all add: algebra_simps)
  finally have f: "fires (l + interval_ms) interval_ms T =
      map (\<lambda>k. l + interval_ms * (k + 1)) [0 ..< (T - l) div interval_ms]" .
  have "cycle_starts (Some l) T = 0 # fires (l + interval_ms) interval_ms T"
    by (simp add: cycle_starts_def initialize_def Let_def)
  then show ?thesis by (simp only: f)
qed

lemma cycle_starts_None: "cycle_starts None T = [0]"
  by (simp add: cycle_starts_def initialize_def Let_def)

text \<open>
  Claim C8, as stated: with no manual trigger there is one cycle at mount time and exactly
  one more at 5 minutes. The timer is registered behind \<^verbatim>\<open>await this.fetchComments()\<close>,
  so it counts from the end of the first cycle. When the first cycle takes 2 seconds, the
  only cycle started up to and including minute 5 is the one at 0; the second starts at
  5 minutes and 2 seconds.
\<close>

theorem second_cycle_after_first_ends:
  "cycle_starts (Some 2000) 300000 = [0]
   \<and> cycle_starts (Some 2000) 302000 = [0, 302000]"
  by (simp add: cycle_starts_Some interval_ms_def)

text \<open>
  Claim C8, amended. Construction starts one cycle at once, at time 0. When that cycle is
  over, \<open>l\<close> milliseconds later, a recurring timer of period 300000 ms (5 minutes) is
  registered; with no manual trigger the cycles start at 0 and at \<open>l + k * 300000\<close> for
  \<open>k = 1, 2, ...\<close>, so the second cycle is at minute 5 exactly when \<open>l = 0\<close>. While the first
  request has not settled no timer is registered and the cycle at 0 stays the only one.
\<close>

theorem cycles_follow_first_cycle:
  "cycle_starts (Some l) T =
     0 # map (\<lambda>k. l + interval_ms * (k + 1)) [0 ..< (T - l) div interval_ms]
   \<and> cycle_starts None T = [0]
   \<and> interval_ms = 300000
   \<and> cycle_starts (Some 0) 300000 = [0, 300000]"
proof -
  have period: "interval_ms = 300000"
    by (simp add: interval_ms_def)
  have "(300000 - 0) div interval_ms = Suc 0"
    by (simp add: period)
  then have prompt: "cycle_starts (Some 0) 300000 = [0, 300000]"
    by (simp add: cycle_starts_Some) (simp add: period)
  from period prompt show ?thesis
    by (simp add: cycle_starts_Some cycle_starts_None)
qed

end
